theory Spec2Isabelle
  imports Complex_Main "HOL-Library.Sublist"
begin

section \<open>Records of vitals as Python dictionaries\<close>

text \<open>
  The three functions of the rule-based core read a record by key: a pandas row or a plain
  dict. A field holds an int, a float, a string or \<^verbatim>\<open>None\<close>. A float is a finite
  number, modelled by the real number it denotes, or NaN, which is what a data frame stores
  for a missing reading (the infinities are outside the model); a decimal literal of the
  source is the real number it is written as. Comparing an int or a float with a numeric
  literal is the comparison of the numbers, and every comparison with NaN is false; comparing
  a string or \<^verbatim>\<open>None\<close> with a number raises \<^verbatim>\<open>TypeError\<close>;
  \<^verbatim>\<open>row[k]\<close> on a missing key raises \<^verbatim>\<open>KeyError\<close>.
\<close>

datatype pyval = PyInt int | PyFloat real | PyNaN | PyStr string | PyNone

datatype py_error = KeyError string | TypeError

type_synonym row = "string \<rightharpoonup> pyval"

definition getitem :: "row \<Rightarrow> string \<Rightarrow> py_error + pyval" where
  "getitem r k = (case r k of None \<Rightarrow> Inl (KeyError k) | Some v \<Rightarrow> Inr v)"

definition get_default :: "row \<Rightarrow> string \<Rightarrow> pyval \<Rightarrow> pyval" where
  "get_default r k d = (case r k of None \<Rightarrow> d | Some v \<Rightarrow> v)"

text \<open>
  The number a comparison sees, and the four comparisons of a number with a literal:
  \<^verbatim>\<open>x < c\<close>, \<^verbatim>\<open>x <= c\<close>, \<^verbatim>\<open>x > c\<close> and \<^verbatim>\<open>x >= c\<close>.
\<close>

datatype number = Finite real | NaN

fun as_number :: "pyval \<Rightarrow> py_error + number" where
  "as_number (PyInt i) = Inr (Finite (of_int i))"
| "as_number (PyFloat x) = Inr (Finite x)"
| "as_number PyNaN = Inr NaN"
| "as_number (PyStr s) = Inl TypeError"
| "as_number PyNone = Inl TypeError"

fun num_lt :: "number \<Rightarrow> real \<Rightarrow> bool" where
  "num_lt (Finite x) c = (x < c)"
| "num_lt NaN c = False"

fun num_le :: "number \<Rightarrow> real \<Rightarrow> bool" where
  "num_le (Finite x) c = (x \<le> c)"
| "num_le NaN c = False"

fun num_gt :: "number \<Rightarrow> real \<Rightarrow> bool" where
  "num_gt (Finite x) c = (x > c)"
| "num_gt NaN c = False"

fun num_ge :: "number \<Rightarrow> real \<Rightarrow> bool" where
  "num_ge (Finite x) c = (x \<ge> c)"
| "num_ge NaN c = False"

definition num_item :: "row \<Rightarrow> string \<Rightarrow> py_error + number" where
  "num_item r k = (case getitem r k of Inl e \<Rightarrow> Inl e | Inr v \<Rightarrow> as_number v)"

section \<open>Health score (src/core/health\_data.py, calculate\_health\_score)\<close>

text \<open>
  The body of \<^verbatim>\<open>calculate_health_score\<close> on the three numbers it reads: the local
  variable \<^verbatim>\<open>score\<close> after the three \<^verbatim>\<open>if/elif/else\<close> blocks, and the clamped
  value that is returned. A chained comparison \<^verbatim>\<open>60 <= x <= 100\<close> is the conjunction of
  \<^verbatim>\<open>x >= 60\<close> and \<^verbatim>\<open>x <= 100\<close>.
\<close>

definition score_before_clamp_num :: "number \<Rightarrow> number \<Rightarrow> number \<Rightarrow> int" where
  "score_before_clamp_num hr spo2 temp =
     (let score = 100;
          score = (if num_ge hr 60 \<and> num_le hr 100 then score + 0
                   else if (num_ge hr 50 \<and> num_lt hr 60) \<or> (num_gt hr 100 \<and> num_le hr 120)
                     then score - 10
                   else score - 25);
          score = (if num_ge spo2 95 then score + 0
                   else if num_ge spo2 90 \<and> num_lt spo2 95 then score - 15
                   else score - 30);
          score = (if num_ge temp 36.1 \<and> num_le temp 37.2 then score + 0
                   else if (num_ge temp 35.5 \<and> num_lt temp 36.1)
                           \<or> (num_gt temp 37.2 \<and> num_le temp 38.0)
                     then score - 10
                   else score - 20)
      in score)"

definition calculate_health_score_num :: "number \<Rightarrow> number \<Rightarrow> number \<Rightarrow> int" where
  "calculate_health_score_num hr spo2 temp =
     max 0 (min 100 (score_before_clamp_num hr spo2 temp))"

text \<open>The same two values when the three numbers are finite.\<close>

definition score_before_clamp :: "real \<Rightarrow> real \<Rightarrow> real \<Rightarrow> int" where
  "score_before_clamp hr spo2 temp =
     score_before_clamp_num (Finite hr) (Finite spo2) (Finite temp)"

definition calculate_health_score_vals :: "real \<Rightarrow> real \<Rightarrow> real \<Rightarrow> int" where
  "calculate_health_score_vals hr spo2 temp =
     calculate_health_score_num (Finite hr) (Finite spo2) (Finite temp)"

text \<open>
  The function on a row. The heart-rate block is evaluated first, then blood oxygen, then
  temperature; every comparison of one block reads the same field against a number, so a
  block raises at its first comparison or not at all, and the first block that raises decides
  the error.
\<close>

definition calculate_health_score :: "row \<Rightarrow> py_error + int" where
  "calculate_health_score r =
     (case num_item r ''heart_rate'' of Inl e \<Rightarrow> Inl e | Inr hr \<Rightarrow>
       (case num_item r ''blood_oxygen'' of Inl e \<Rightarrow> Inl e | Inr spo2 \<Rightarrow>
         (case num_item r ''temperature'' of Inl e \<Rightarrow> Inl e | Inr temp \<Rightarrow>
            Inr (calculate_health_score_num hr spo2 temp))))"

text \<open>A record whose three vitals are present and finite numbers, with their values.\<close>

definition numeric_vitals :: "row \<Rightarrow> real \<Rightarrow> real \<Rightarrow> real \<Rightarrow> bool" where
  "numeric_vitals r hr spo2 temp \<longleftrightarrow>
     num_item r ''heart_rate'' = Inr (Finite hr) \<and>
     num_item r ''blood_oxygen'' = Inr (Finite spo2) \<and>
     num_item r ''temperature'' = Inr (Finite temp)"

text \<open>
  The reference definition of section 4.1 of the specification, in its words: start at 100,
  subtract the minor or the severe penalty of each channel by band membership, clamp.
\<close>

definition score_spec :: "real \<Rightarrow> real \<Rightarrow> real \<Rightarrow> int" where
  "score_spec hr spo2 temp =
     max 0 (min 100 (100
       - (if (50 \<le> hr \<and> hr < 60) \<or> (100 < hr \<and> hr \<le> 120) then 10 else 0)
       - (if hr < 50 \<or> hr > 120 then 25 else 0)
       - (if 90 \<le> spo2 \<and> spo2 < 95 then 15 else 0)
       - (if spo2 < 90 then 30 else 0)
       - (if (35.5 \<le> temp \<and> temp < 36.1) \<or> (37.2 < temp \<and> temp \<le> 38.0) then 10 else 0)
       - (if temp < 35.5 \<or> temp > 38.0 then 20 else 0)))"

section \<open>Risk labels (src/core/ml\_models.py, HealthRiskClassifier.create\_risk\_labels)\<close>

text \<open>
  The body of the loop of \<^verbatim>\<open>create_risk_labels\<close> for one row: the local variable
  \<^verbatim>\<open>risk_score\<close> after the three blocks, and the label appended for it
  (0: Low, 1: Medium, 2: High).
\<close>

definition risk_score_num :: "number \<Rightarrow> number \<Rightarrow> number \<Rightarrow> int" where
  "risk_score_num hr spo2 temp =
     (let risk_score = 0;
          risk_score = (if num_lt hr 50 \<or> num_gt hr 120 then risk_score + 2
                        else if num_lt hr 60 \<or> num_gt hr 100 then risk_score + 1
                        else risk_score);
          risk_score = (if num_lt spo2 90 then risk_score + 2
                        else if num_lt spo2 95 then risk_score + 1
                        else risk_score);
          risk_score = (if num_lt temp 35.5 \<or> num_gt temp 38.0 then risk_score + 2
                        else if num_lt temp 36.1 \<or> num_gt temp 37.5 then risk_score + 1
                        else risk_score)
      in risk_score)"

definition risk_label_num :: "number \<Rightarrow> number \<Rightarrow> number \<Rightarrow> int" where
  "risk_label_num hr spo2 temp =
     (let risk_score = risk_score_num hr spo2 temp
      in if risk_score \<ge> 4 then 2 else if risk_score \<ge> 2 then 1 else 0)"

text \<open>The same two values when the three numbers are finite.\<close>

definition risk_score_vals :: "real \<Rightarrow> real \<Rightarrow> real \<Rightarrow> int" where
  "risk_score_vals hr spo2 temp = risk_score_num (Finite hr) (Finite spo2) (Finite temp)"

definition risk_label_vals :: "real \<Rightarrow> real \<Rightarrow> real \<Rightarrow> int" where
  "risk_label_vals hr spo2 temp = risk_label_num (Finite hr) (Finite spo2) (Finite temp)"

definition risk_label_row :: "row \<Rightarrow> py_error + int" where
  "risk_label_row r =
     (case num_item r ''heart_rate'' of Inl e \<Rightarrow> Inl e | Inr hr \<Rightarrow>
       (case num_item r ''blood_oxygen'' of Inl e \<Rightarrow> Inl e | Inr spo2 \<Rightarrow>
         (case num_item r ''temperature'' of Inl e \<Rightarrow> Inl e | Inr temp \<Rightarrow>
            Inr (risk_label_num hr spo2 temp))))"

text \<open>The loop over the rows of the data frame, appending to the list \<^verbatim>\<open>risk\<close>.\<close>

fun risk_loop :: "row list \<Rightarrow> int list \<Rightarrow> py_error + int list" where
  "risk_loop [] risk = Inr risk"
| "risk_loop (r # df) risk =
     (case risk_label_row r of Inl e \<Rightarrow> Inl e | Inr l \<Rightarrow> risk_loop df (risk @ [l]))"

definition create_risk_labels :: "row list \<Rightarrow> py_error + int list" where
  "create_risk_labels df = risk_loop df []"

definition risk_levels :: "string list" where
  "risk_levels = [''Low Risk'', ''Medium Risk'', ''High Risk'']"

text \<open>
  The reference definition of section 4.2 of the specification, in its words: an additive
  point system over the bands of the three channels, then the label by the total.
\<close>

datatype risk_level = Low | Medium | High

definition risk_score_spec :: "real \<Rightarrow> real \<Rightarrow> real \<Rightarrow> int" where
  "risk_score_spec hr spo2 temp =
     0
     + (if hr < 50 \<or> hr > 120 then 2 else 0)
     + (if (50 \<le> hr \<and> hr < 60) \<or> (100 < hr \<and> hr \<le> 120) then 1 else 0)
     + (if spo2 < 90 then 2 else 0)
     + (if 90 \<le> spo2 \<and> spo2 < 95 then 1 else 0)
     + (if temp < 35.5 \<or> temp > 38.0 then 2 else 0)
     + (if (35.5 \<le> temp \<and> temp < 36.1) \<or> (37.5 < temp \<and> temp \<le> 38.0) then 1 else 0)"

definition classify_spec :: "real \<Rightarrow> real \<Rightarrow> real \<Rightarrow> risk_level" where
  "classify_spec hr spo2 temp =
     (if risk_score_spec hr spo2 temp \<ge> 4 then High
      else if risk_score_spec hr spo2 temp \<ge> 2 then Medium
      else Low)"

fun level_code :: "risk_level \<Rightarrow> int" where
  "level_code Low = 0"
| "level_code Medium = 1"
| "level_code High = 2"

text \<open>
  The severity bands of the tables of sections 4.1 and 4.2, per channel. The two tables have
  the same bands for heart rate and blood oxygen; for temperature the moderate band above
  normal starts at 37.5 in section 4.2 (\<open>temp_band\<close>) and at 37.2 in section 4.1
  (\<open>temp_band_score\<close>). Then the points and penalties of a band, and one step of
  worsening.
\<close>

datatype band = Normal | Moderate | Severe

definition hr_band :: "real \<Rightarrow> band" where
  "hr_band hr =
     (if hr < 50 \<or> hr > 120 then Severe
      else if (50 \<le> hr \<and> hr < 60) \<or> (100 < hr \<and> hr \<le> 120) then Moderate
      else Normal)"

definition spo2_band :: "real \<Rightarrow> band" where
  "spo2_band spo2 =
     (if spo2 < 90 then Severe else if 90 \<le> spo2 \<and> spo2 < 95 then Moderate else Normal)"

definition temp_band :: "real \<Rightarrow> band" where
  "temp_band temp =
     (if temp < 35.5 \<or> temp > 38.0 then Severe
      else if (35.5 \<le> temp \<and> temp < 36.1) \<or> (37.5 < temp \<and> temp \<le> 38.0) then Moderate
      else Normal)"

definition temp_band_score :: "real \<Rightarrow> band" where
  "temp_band_score temp =
     (if temp < 35.5 \<or> temp > 38.0 then Severe
      else if (35.5 \<le> temp \<and> temp < 36.1) \<or> (37.2 < temp \<and> temp \<le> 38.0) then Moderate
      else Normal)"

fun band_points :: "band \<Rightarrow> int" where
  "band_points Normal = 0"
| "band_points Moderate = 1"
| "band_points Severe = 2"

fun hr_penalty :: "band \<Rightarrow> int" where
  "hr_penalty Normal = 0"
| "hr_penalty Moderate = 10"
| "hr_penalty Severe = 25"

fun spo2_penalty :: "band \<Rightarrow> int" where
  "spo2_penalty Normal = 0"
| "spo2_penalty Moderate = 15"
| "spo2_penalty Severe = 30"

fun temp_penalty :: "band \<Rightarrow> int" where
  "temp_penalty Normal = 0"
| "temp_penalty Moderate = 10"
| "temp_penalty Severe = 20"

definition worsens :: "band \<Rightarrow> band \<Rightarrow> bool" where
  "worsens b b' \<longleftrightarrow> (b = Normal \<and> b' = Moderate) \<or> (b = Moderate \<and> b' = Severe)"

section \<open>Recommendations (src/core/ml\_models.py, HealthRecommendationEngine.generate\_recommendations)\<close>

text \<open>
  A message is the string literal of the source as the bytes of the file: a leading glyph
  (several bytes, none of them ASCII) and an ASCII text. Glyphs are written byte by byte.
\<close>

definition glyph_warning :: string where
  "glyph_warning =
     [CHR 0xE2, CHR 0x80, CHR 0x9A, CHR 0xC3, CHR 0xB6, CHR 0xE2, CHR 0x80, CHR 0xA0,
      CHR 0xC3, CHR 0x94, CHR 0xE2, CHR 0x88, CHR 0x8F, CHR 0xC3, CHR 0xA8]"

definition glyph_tip :: string where
  "glyph_tip =
     [CHR 0xEF, CHR 0xA3, CHR 0xBF, CHR 0xC3, CHR 0xBC, CHR 0xC3, CHR 0xAD, CHR 0xC2,
      CHR 0xB0]"

definition glyph_urgent :: string where
  "glyph_urgent =
     [CHR 0xEF, CHR 0xA3, CHR 0xBF, CHR 0xC3, CHR 0xBC, CHR 0xC3, CHR 0xB6, CHR 0xC2,
      CHR 0xAE]"

definition glyph_exercise :: string where
  "glyph_exercise =
     [CHR 0xEF, CHR 0xA3, CHR 0xBF, CHR 0xC3, CHR 0xBC, CHR 0xC3, CHR 0xAD, CHR 0xE2,
      CHR 0x84, CHR 0xA2]"

definition glyph_phone :: string where
  "glyph_phone =
     [CHR 0xEF, CHR 0xA3, CHR 0xBF, CHR 0xC3, CHR 0xBC, CHR 0xC3, CHR 0xAC, CHR 0xC2,
      CHR 0xB1]"

definition glyph_chart :: string where
  "glyph_chart =
     [CHR 0xEF, CHR 0xA3, CHR 0xBF, CHR 0xC3, CHR 0xBC, CHR 0xC3, CHR 0xAC, CHR 0xC3,
      CHR 0xA4]"

definition glyph_ok :: string where
  "glyph_ok =
     [CHR 0xE2, CHR 0x80, CHR 0x9A, CHR 0xC3, CHR 0xBA, CHR 0xC3, CHR 0x96]"

definition glyph_water :: string where
  "glyph_water =
     [CHR 0xEF, CHR 0xA3, CHR 0xBF, CHR 0xC3, CHR 0xBC, CHR 0xC3, CHR 0xAD, CHR 0xC3,
      CHR 0x9F]"

definition msg_hr_low :: string where
  "msg_hr_low = glyph_warning @ '' Your heart rate is low. Consider consulting a healthcare'' @
     '' provider if this persists.''"

definition msg_avoid_strenuous :: string where
  "msg_avoid_strenuous = glyph_tip @ '' Avoid sudden strenuous activities.''"

definition msg_hr_elevated :: string where
  "msg_hr_elevated = glyph_warning @ '' Your heart rate is elevated. Try relaxation techniques'' @
     '' like deep breathing.''"

definition msg_reduce_caffeine :: string where
  "msg_reduce_caffeine = glyph_tip @ '' Reduce caffeine intake and ensure adequate hydration.''"

definition msg_spo2_low :: string where
  "msg_spo2_low = glyph_warning @ '' Blood oxygen is below normal. Ensure good ventilation and'' @
     '' avoid strenuous activities.''"

definition msg_spo2_critical :: string where
  "msg_spo2_critical = glyph_urgent @ '' URGENT: Seek immediate medical attention - oxygen levels'' @
     '' critically low!''"

definition msg_temp_elevated :: string where
  "msg_temp_elevated = glyph_warning @ '' Elevated temperature detected. Stay hydrated and monitor'' @
     '' closely.''"

definition msg_fever :: string where
  "msg_fever = glyph_urgent @ '' Fever detected. Consider taking fever-reducing medication'' @
     '' and consult a doctor.''"

definition msg_temp_low :: string where
  "msg_temp_low = glyph_warning @ '' Body temperature is low. Warm up and monitor for'' @
     '' hypothermia symptoms.''"

definition msg_activity_low :: string where
  "msg_activity_low = glyph_exercise @ '' Try to increase physical activity gradually - aim for 30'' @
     '' minutes daily.''"

definition msg_activity_high :: string where
  "msg_activity_high = glyph_warning @ '' Consider moderating intense activity given your current'' @
     '' health metrics.''"

definition msg_high_risk :: string where
  "msg_high_risk = glyph_urgent @ '' HIGH RISK ALERT: Schedule an immediate consultation with'' @
     '' your healthcare provider.''"

definition msg_emergency :: string where
  "msg_emergency = glyph_phone @ '' Consider emergency services if symptoms worsen.''"

definition msg_medium_risk :: string where
  "msg_medium_risk = glyph_warning @ '' Schedule a check-up with your healthcare provider within'' @
     '' 24-48 hours.''"

definition msg_continue_monitoring :: string where
  "msg_continue_monitoring = glyph_chart @ '' Continue monitoring your vitals closely.''"

definition msg_vitals_good :: string where
  "msg_vitals_good = glyph_ok @ '' Your vitals look good! Maintain healthy lifestyle habits.''"

definition msg_stay_hydrated :: string where
  "msg_stay_hydrated = glyph_water @ '' Stay hydrated and get adequate rest.''"

definition msg_anomaly :: string where
  "msg_anomaly = glyph_warning @ '' Unusual pattern detected in your health data. Monitor'' @
     '' closely and consult a doctor if concerned.''"

text \<open>
  Comparisons of a field with a numeric literal, \<^verbatim>\<open>v < c\<close> and \<^verbatim>\<open>v > c\<close>.
\<close>

definition py_lt :: "pyval \<Rightarrow> real \<Rightarrow> py_error + bool" where
  "py_lt v c = (case as_number v of Inl e \<Rightarrow> Inl e | Inr x \<Rightarrow> Inr (num_lt x c))"

definition py_gt :: "pyval \<Rightarrow> real \<Rightarrow> py_error + bool" where
  "py_gt v c = (case as_number v of Inl e \<Rightarrow> Inl e | Inr x \<Rightarrow> Inr (num_gt x c))"

text \<open>
  The function is a cascade of blocks, each appending to the list \<^verbatim>\<open>recommendations\<close>;
  there is no early return. One definition per block, in the order of the source, each taking
  the list so far and returning it extended. A field is read with
  \<^verbatim>\<open>health_data.get(key, default)\<close>.
\<close>

definition heart_rate_recommendations :: "row \<Rightarrow> string list \<Rightarrow> py_error + string list" where
  "heart_rate_recommendations health_data recommendations =
     (let hr = get_default health_data ''heart_rate'' (PyInt 0) in
      case py_lt hr 60 of Inl e \<Rightarrow> Inl e | Inr low \<Rightarrow>
        if low then Inr (recommendations @ [msg_hr_low, msg_avoid_strenuous])
        else (case py_gt hr 100 of Inl e \<Rightarrow> Inl e | Inr high \<Rightarrow>
          if high then Inr (recommendations @ [msg_hr_elevated, msg_reduce_caffeine])
          else Inr recommendations))"

definition blood_oxygen_recommendations :: "row \<Rightarrow> string list \<Rightarrow> py_error + string list" where
  "blood_oxygen_recommendations health_data recommendations =
     (let spo2 = get_default health_data ''blood_oxygen'' (PyInt 100) in
      case py_lt spo2 95 of Inl e \<Rightarrow> Inl e | Inr low \<Rightarrow>
        if low then
          (let recommendations = recommendations @ [msg_spo2_low] in
           case py_lt spo2 90 of Inl e \<Rightarrow> Inl e | Inr critical \<Rightarrow>
             if critical then Inr (recommendations @ [msg_spo2_critical])
             else Inr recommendations)
        else Inr recommendations)"

definition temperature_recommendations :: "row \<Rightarrow> string list \<Rightarrow> py_error + string list" where
  "temperature_recommendations health_data recommendations =
     (let temp = get_default health_data ''temperature'' (PyFloat 36.5) in
      case py_gt temp 37.5 of Inl e \<Rightarrow> Inl e | Inr high \<Rightarrow>
        if high then
          (let recommendations = recommendations @ [msg_temp_elevated] in
           case py_gt temp 38.0 of Inl e \<Rightarrow> Inl e | Inr fever \<Rightarrow>
             if fever then Inr (recommendations @ [msg_fever])
             else Inr recommendations)
        else (case py_lt temp 36.0 of Inl e \<Rightarrow> Inl e | Inr low \<Rightarrow>
          if low then Inr (recommendations @ [msg_temp_low])
          else Inr recommendations))"

definition activity_recommendations :: "row \<Rightarrow> string \<Rightarrow> string list \<Rightarrow> string list" where
  "activity_recommendations health_data risk_level recommendations =
     (let activity = get_default health_data ''activity_level'' (PyStr ''moderate'') in
      if activity = PyStr ''low'' then recommendations @ [msg_activity_low]
      else if activity = PyStr ''high'' \<and> risk_level \<in> set [''Medium Risk'', ''High Risk'']
        then recommendations @ [msg_activity_high]
      else recommendations)"

definition risk_level_recommendations :: "string \<Rightarrow> string list \<Rightarrow> string list" where
  "risk_level_recommendations risk_level recommendations =
     (if risk_level = ''High Risk'' then recommendations @ [msg_high_risk, msg_emergency]
      else if risk_level = ''Medium Risk''
        then recommendations @ [msg_medium_risk, msg_continue_monitoring]
      else recommendations @ [msg_vitals_good, msg_stay_hydrated])"

definition anomaly_recommendations :: "string \<Rightarrow> string list \<Rightarrow> string list" where
  "anomaly_recommendations anomaly_status recommendations =
     (if anomaly_status = ''Anomaly'' then recommendations @ [msg_anomaly]
      else recommendations)"

definition generate_recommendations :: "row \<Rightarrow> string \<Rightarrow> string \<Rightarrow> py_error + string list" where
  "generate_recommendations health_data anomaly_status risk_level =
     (let recommendations = [] in
      case heart_rate_recommendations health_data recommendations of Inl e \<Rightarrow> Inl e
      | Inr recommendations \<Rightarrow>
       (case blood_oxygen_recommendations health_data recommendations of Inl e \<Rightarrow> Inl e
        | Inr recommendations \<Rightarrow>
         (case temperature_recommendations health_data recommendations of Inl e \<Rightarrow> Inl e
          | Inr recommendations \<Rightarrow>
              Inr (anomaly_recommendations anomaly_status
                    (risk_level_recommendations risk_level
                      (activity_recommendations health_data risk_level recommendations))))))"

text \<open>
  A warning entry is a message that starts with the warning glyph, an urgent entry one that
  starts with the alarm glyph.
\<close>

definition is_warning :: "string \<Rightarrow> bool" where
  "is_warning m = prefix glyph_warning m"

definition is_urgent :: "string \<Rightarrow> bool" where
  "is_urgent m = prefix glyph_urgent m"

text \<open>
  What the functions meet when they read one of the three vital fields. A field holds a
  number when it holds an int or a float, NaN included. Indexing the row by a field raises
  \<^verbatim>\<open>KeyError\<close> with that key when the field is absent and \<^verbatim>\<open>TypeError\<close> at the
  first comparison when it holds something that is not a number; \<open>first_error\<close> is the
  error of the first such field of a list, read in order. Then the fields that
  \<^verbatim>\<open>health_data.get\<close> reads without an error, and its defaults for blood oxygen,
  temperature and activity level, as a record.
\<close>

definition vital_keys :: "string list" where
  "vital_keys = [''heart_rate'', ''blood_oxygen'', ''temperature'']"

fun is_number :: "pyval \<Rightarrow> bool" where
  "is_number (PyInt i) = True"
| "is_number (PyFloat x) = True"
| "is_number PyNaN = True"
| "is_number (PyStr s) = False"
| "is_number PyNone = False"

definition field_error :: "row \<Rightarrow> string \<Rightarrow> py_error option" where
  "field_error r k =
     (case r k of None \<Rightarrow> Some (KeyError k)
      | Some v \<Rightarrow> if is_number v then None else Some TypeError)"

fun first_error :: "row \<Rightarrow> string list \<Rightarrow> py_error option" where
  "first_error r [] = None"
| "first_error r (k # ks) =
     (case field_error r k of Some e \<Rightarrow> Some e | None \<Rightarrow> first_error r ks)"

definition numeric_or_missing :: "row \<Rightarrow> string \<Rightarrow> bool" where
  "numeric_or_missing r k = (case r k of None \<Rightarrow> True | Some v \<Rightarrow> is_number v)"

definition neutral_defaults :: row where
  "neutral_defaults = [''blood_oxygen'' \<mapsto> PyInt 100, ''temperature'' \<mapsto> PyFloat 36.5,
                       ''activity_level'' \<mapsto> PyStr ''moderate'']"

section \<open>Example records\<close>

definition example_row :: row where
  "example_row = [''heart_rate'' \<mapsto> PyInt 45, ''blood_oxygen'' \<mapsto> PyInt 88,
                  ''temperature'' \<mapsto> PyFloat 39.0]"

definition normal_row :: row where
  "normal_row = [''heart_rate'' \<mapsto> PyInt 75, ''blood_oxygen'' \<mapsto> PyInt 98,
                 ''temperature'' \<mapsto> PyFloat 36.6, ''activity_level'' \<mapsto> PyStr ''moderate'']"

definition boundary_row_50 :: row where
  "boundary_row_50 = [''heart_rate'' \<mapsto> PyInt 50, ''blood_oxygen'' \<mapsto> PyInt 98,
                      ''temperature'' \<mapsto> PyFloat 36.6]"

definition boundary_row_120 :: row where
  "boundary_row_120 = [''heart_rate'' \<mapsto> PyInt 120, ''blood_oxygen'' \<mapsto> PyInt 92,
                       ''temperature'' \<mapsto> PyFloat 37.4]"

definition worst_row :: row where
  "worst_row = [''heart_rate'' \<mapsto> PyInt 45, ''blood_oxygen'' \<mapsto> PyInt 88,
                ''temperature'' \<mapsto> PyFloat 39.0, ''activity_level'' \<mapsto> PyStr ''low'']"

definition negative_spo2_row :: row where
  "negative_spo2_row = [''heart_rate'' \<mapsto> PyInt 75, ''blood_oxygen'' \<mapsto> PyInt (- 5),
                        ''temperature'' \<mapsto> PyFloat 36.6]"

definition non_numeric_row :: row where
  "non_numeric_row = [''heart_rate'' \<mapsto> PyStr ''fast'', ''blood_oxygen'' \<mapsto> PyInt 98,
                      ''temperature'' \<mapsto> PyFloat 36.6]"

definition moderate_hr_low_oxygen_row :: row where
  "moderate_hr_low_oxygen_row =
     [''heart_rate'' \<mapsto> PyInt 50, ''blood_oxygen'' \<mapsto> PyInt 89,
      ''temperature'' \<mapsto> PyFloat 36.6]"

definition nan_heart_rate_row :: row where
  "nan_heart_rate_row = [''heart_rate'' \<mapsto> PyNaN, ''blood_oxygen'' \<mapsto> PyInt 98,
                         ''temperature'' \<mapsto> PyFloat 36.6]"

definition none_heart_rate_row :: row where
  "none_heart_rate_row = [''heart_rate'' \<mapsto> PyNone, ''blood_oxygen'' \<mapsto> PyInt 98,
                          ''temperature'' \<mapsto> PyFloat 36.6]"

definition no_temperature_row :: row where
  "no_temperature_row = [''heart_rate'' \<mapsto> PyInt 75, ''blood_oxygen'' \<mapsto> PyInt 98]"

section \<open>The functions at finite numbers\<close>

lemma score_before_clamp_real:
  "score_before_clamp hr spo2 temp =
     (let score = 100;
          score = (if 60 \<le> hr \<and> hr \<le> 100 then score + 0
                   else if (50 \<le> hr \<and> hr < 60) \<or> (100 < hr \<and> hr \<le> 120) then score - 10
                   else score - 25);
          score = (if spo2 \<ge> 95 then score + 0
                   else if 90 \<le> spo2 \<and> spo2 < 95 then score - 15
                   else score - 30);
          score = (if 36.1 \<le> temp \<and> temp \<le> 37.2 then score + 0
                   else if (35.5 \<le> temp \<and> temp < 36.1) \<or> (37.2 < temp \<and> temp \<le> 38.0)
                     then score - 10
                   else score - 20)
      in score)"
  by (simp add: score_before_clamp_def score_before_clamp_num_def)

lemma calculate_health_score_vals_real:
  "calculate_health_score_vals hr spo2 temp = max 0 (min 100 (score_before_clamp hr spo2 temp))"
  by (simp only: calculate_health_score_vals_def calculate_health_score_num_def
      score_before_clamp_def)

lemma risk_score_vals_real:
  "risk_score_vals hr spo2 temp =
     (let risk_score = 0;
          risk_score = (if hr < 50 \<or> hr > 120 then risk_score + 2
                        else if hr < 60 \<or> hr > 100 then risk_score + 1
                        else risk_score);
          risk_score = (if spo2 < 90 then risk_score + 2
                        else if spo2 < 95 then risk_score + 1
                        else risk_score);
          risk_score = (if temp < 35.5 \<or> temp > 38.0 then risk_score + 2
                        else if temp < 36.1 \<or> temp > 37.5 then risk_score + 1
                        else risk_score)
      in risk_score)"
  by (simp add: risk_score_vals_def risk_score_num_def)

lemma risk_label_vals_real:
  "risk_label_vals hr spo2 temp =
     (let risk_score = risk_score_vals hr spo2 temp
      in if risk_score \<ge> 4 then 2 else if risk_score \<ge> 2 then 1 else 0)"
  by (simp only: risk_label_vals_def risk_label_num_def risk_score_vals_def)

section \<open>Properties of the health score\<close>

lemma numeric_vitals_example: "numeric_vitals example_row 45 88 39"
  by (simp add: numeric_vitals_def num_item_def getitem_def example_row_def)

lemma calculate_health_score_numeric:
  "numeric_vitals r hr spo2 temp \<Longrightarrow>
   calculate_health_score r = Inr (calculate_health_score_vals hr spo2 temp)"
  by (simp add: numeric_vitals_def calculate_health_score_def calculate_health_score_vals_def)

lemma score_vals_eq_spec: "calculate_health_score_vals hr spo2 temp = score_spec hr spo2 temp"
  unfolding calculate_health_score_vals_real score_before_clamp_real score_spec_def Let_def
  by auto

text \<open>
  C1: for every record with numeric heart rate, blood oxygen and temperature, the score
  returned by the code is the reference definition of section 4.1.
\<close>

theorem score_refines_spec:
  "numeric_vitals r hr spo2 temp \<Longrightarrow> calculate_health_score r = Inr (score_spec hr spo2 temp)"
  by (simp add: calculate_health_score_numeric score_vals_eq_spec)

theorem score_refines_spec_witness:
  "numeric_vitals example_row 45 88 39 \<and>
   calculate_health_score example_row = Inr (score_spec 45 88 39) \<and> score_spec 45 88 39 = 25"
  using score_refines_spec [OF numeric_vitals_example] numeric_vitals_example
  by (simp add: score_spec_def)

lemma numeric_vitals_normal: "numeric_vitals normal_row 75 98 36.6"
  by (simp add: numeric_vitals_def num_item_def getitem_def normal_row_def)

lemma numeric_vitals_boundary_50: "numeric_vitals boundary_row_50 50 98 36.6"
  by (simp add: numeric_vitals_def num_item_def getitem_def boundary_row_50_def)

lemma numeric_vitals_boundary_120: "numeric_vitals boundary_row_120 120 92 37.4"
  by (simp add: numeric_vitals_def num_item_def getitem_def boundary_row_120_def)

lemma score_before_clamp_penalties:
  "score_before_clamp hr spo2 temp =
     100 - (hr_penalty (hr_band hr) + spo2_penalty (spo2_band spo2)
            + temp_penalty (temp_band_score temp))"
  unfolding score_before_clamp_real hr_band_def spo2_band_def temp_band_score_def Let_def
  by auto

lemma score_before_clamp_range:
  "25 \<le> score_before_clamp hr spo2 temp \<and> score_before_clamp hr spo2 temp \<le> 100"
  unfolding score_before_clamp_real Let_def by auto

text \<open>
  C3: the score of every record with numeric vitals lies in [0,100] and is
  max(0, min(100, 100 - sum of the penalties of the three channels)); when every channel is in
  its severe band the penalties are 25, 30 and 20 and the score is 25.
\<close>

theorem score_clamped:
  assumes "numeric_vitals r hr spo2 temp"
  shows "\<exists>s. calculate_health_score r = Inr s \<and> 0 \<le> s \<and> s \<le> 100 \<and>
           s = max 0 (min 100 (100 - (hr_penalty (hr_band hr) + spo2_penalty (spo2_band spo2)
                                      + temp_penalty (temp_band_score temp)))) \<and>
           (hr_band hr = Severe \<and> spo2_band spo2 = Severe \<and> temp_band_score temp = Severe
              \<longrightarrow> s = 25)"
proof -
  let ?s = "calculate_health_score_vals hr spo2 temp"
  have ret: "calculate_health_score r = Inr ?s"
    using assms by (rule calculate_health_score_numeric)
  have range: "0 \<le> ?s \<and> ?s \<le> 100"
    by (simp add: calculate_health_score_vals_real)
  have formula: "?s = max 0 (min 100 (100 - (hr_penalty (hr_band hr)
      + spo2_penalty (spo2_band spo2) + temp_penalty (temp_band_score temp))))"
    by (simp only: calculate_health_score_vals_real score_before_clamp_penalties)
  have severe: "hr_band hr = Severe \<and> spo2_band spo2 = Severe \<and> temp_band_score temp = Severe
      \<longrightarrow> ?s = 25"
    by (simp add: formula)
  from ret range formula severe show ?thesis by blast
qed

theorem score_clamped_witness:
  "numeric_vitals example_row 45 88 39 \<and>
   hr_band 45 = Severe \<and> spo2_band 88 = Severe \<and> temp_band_score 39 = Severe \<and>
   calculate_health_score example_row = Inr 25"
  using score_clamped [OF numeric_vitals_example] numeric_vitals_example
  by (simp add: hr_band_def spo2_band_def temp_band_score_def)

text \<open>
  C10: the score of every record with numeric vitals is at least 25: the penalties sum to at
  most 75, so the value before the clamp already lies in [25,100] and the clamp returns it
  unchanged. Both ends are reached: 25 with every channel severe, 100 with every channel
  normal.
\<close>

theorem score_at_least_25:
  assumes "numeric_vitals r hr spo2 temp"
  shows "\<exists>s. calculate_health_score r = Inr s \<and> 25 \<le> s \<and> s \<le> 100 \<and>
           s = score_before_clamp hr spo2 temp \<and>
           hr_penalty (hr_band hr) + spo2_penalty (spo2_band spo2)
             + temp_penalty (temp_band_score temp) \<le> 75 \<and>
           calculate_health_score example_row = Inr 25 \<and>
           calculate_health_score normal_row = Inr 100"
proof -
  let ?s = "calculate_health_score_vals hr spo2 temp"
  have ret: "calculate_health_score r = Inr ?s"
    using assms by (rule calculate_health_score_numeric)
  have unclamped: "?s = score_before_clamp hr spo2 temp"
    using score_before_clamp_range [of hr spo2 temp]
    by (simp add: calculate_health_score_vals_real)
  have range: "25 \<le> ?s \<and> ?s \<le> 100"
    using score_before_clamp_range [of hr spo2 temp] unclamped by simp
  have total: "hr_penalty (hr_band hr) + spo2_penalty (spo2_band spo2)
      + temp_penalty (temp_band_score temp) \<le> 75"
    using score_before_clamp_range [of hr spo2 temp]
    by (simp add: score_before_clamp_penalties)
  have low: "calculate_health_score example_row = Inr 25"
    by (simp add: calculate_health_score_numeric [OF numeric_vitals_example]
        calculate_health_score_vals_real score_before_clamp_real)
  have high: "calculate_health_score normal_row = Inr 100"
    by (simp add: calculate_health_score_numeric [OF numeric_vitals_normal]
        calculate_health_score_vals_real score_before_clamp_real)
  from ret unclamped range total low high show ?thesis by blast
qed

theorem score_at_least_25_witness:
  "numeric_vitals boundary_row_120 120 92 37.4 \<and>
   calculate_health_score boundary_row_120 = Inr 65 \<and> score_before_clamp 120 92 37.4 = 65"
proof -
  have "score_before_clamp 120 92 37.4 = 65"
    by (simp add: score_before_clamp_real)
  then show ?thesis
    using score_at_least_25 [OF numeric_vitals_boundary_120] numeric_vitals_boundary_120
    by auto
qed

section \<open>Properties of the risk labels\<close>

lemma risk_label_numeric:
  "numeric_vitals r hr spo2 temp \<Longrightarrow> risk_label_row r = Inr (risk_label_vals hr spo2 temp)"
  by (simp add: numeric_vitals_def risk_label_row_def risk_label_vals_def)

lemma risk_score_vals_eq_spec: "risk_score_vals hr spo2 temp = risk_score_spec hr spo2 temp"
  unfolding risk_score_vals_real risk_score_spec_def Let_def by auto

lemma risk_label_vals_eq_spec:
  "risk_label_vals hr spo2 temp = level_code (classify_spec hr spo2 temp)"
  by (simp add: risk_label_vals_real classify_spec_def risk_score_vals_eq_spec Let_def)

lemma risk_score_vals_points:
  "risk_score_vals hr spo2 temp =
     band_points (hr_band hr) + band_points (spo2_band spo2) + band_points (temp_band temp)"
  unfolding risk_score_vals_real hr_band_def spo2_band_def temp_band_def Let_def
  by auto

lemma risk_label_vals_mono:
  "risk_score_vals h s t \<le> risk_score_vals h' s' t' \<Longrightarrow>
   risk_label_vals h s t \<le> risk_label_vals h' s' t'"
  by (simp add: risk_label_vals_real Let_def)

lemma worsens_points: "worsens b b' \<Longrightarrow> band_points b \<le> band_points b'"
  by (auto simp: worsens_def)

text \<open>
  C2: for every record with numeric vitals, the label computed by the code is the reference
  definition of section 4.2 (0 for Low, 1 for Medium, 2 for High). The moderate temperature
  band above normal starts at 37.5 here and at 37.2 in the health score: at 37.3 the record
  gains no risk point and loses 10 points of score.
\<close>

theorem classify_refines_spec:
  assumes "numeric_vitals r hr spo2 temp"
  shows "risk_label_row r = Inr (level_code (classify_spec hr spo2 temp)) \<and>
         create_risk_labels [r] = Inr [level_code (classify_spec hr spo2 temp)] \<and>
         risk_score_vals 75 98 37.3 = 0 \<and> score_before_clamp 75 98 37.3 = 90 \<and>
         risk_score_vals 75 98 37.6 = 1"
proof -
  have row: "risk_label_row r = Inr (level_code (classify_spec hr spo2 temp))"
    using risk_label_numeric [OF assms] by (simp add: risk_label_vals_eq_spec)
  then have df: "create_risk_labels [r] = Inr [level_code (classify_spec hr spo2 temp)]"
    by (simp add: create_risk_labels_def)
  have "risk_score_vals 75 98 37.3 = 0" "score_before_clamp 75 98 37.3 = 90"
    "risk_score_vals 75 98 37.6 = 1"
    by (simp_all add: risk_score_vals_real score_before_clamp_real)
  with row df show ?thesis by simp
qed

theorem classify_refines_spec_witness:
  "numeric_vitals example_row 45 88 39 \<and> classify_spec 45 88 39 = High \<and>
   risk_label_row example_row = Inr 2 \<and> create_risk_labels [example_row] = Inr [2]"
proof -
  have "classify_spec 45 88 39 = High"
    by (simp add: classify_spec_def risk_score_spec_def)
  then show ?thesis
    using classify_refines_spec [OF numeric_vitals_example] numeric_vitals_example
    by simp
qed

lemma worsens_label_mono:
  assumes "(worsens (hr_band h) (hr_band h') \<and> s' = s \<and> t' = t) \<or>
           (h' = h \<and> worsens (spo2_band s) (spo2_band s') \<and> t' = t) \<or>
           (h' = h \<and> s' = s \<and> worsens (temp_band t) (temp_band t'))"
  shows "risk_label_vals h s t \<le> risk_label_vals h' s' t'"
proof (rule risk_label_vals_mono)
  show "risk_score_vals h s t \<le> risk_score_vals h' s' t'"
    using assms worsens_points
    by (auto simp: risk_score_vals_points)
qed

text \<open>
  C4: the risk label is monotonic in the severity of each channel: when one channel moves
  from its normal band to its moderate band, or from its moderate band to its severe band,
  and the other two channels keep their values, the label (0 Low, 1 Medium, 2 High) does not
  decrease.
\<close>

theorem classify_monotonic:
  assumes "numeric_vitals r h s t" and "numeric_vitals r' h' s' t'"
    and "(worsens (hr_band h) (hr_band h') \<and> s' = s \<and> t' = t) \<or>
         (h' = h \<and> worsens (spo2_band s) (spo2_band s') \<and> t' = t) \<or>
         (h' = h \<and> s' = s \<and> worsens (temp_band t) (temp_band t'))"
  shows "\<exists>l l'. risk_label_row r = Inr l \<and> risk_label_row r' = Inr l' \<and> l \<le> l'"
  using risk_label_numeric [OF assms(1)] risk_label_numeric [OF assms(2)]
    worsens_label_mono [OF assms(3)]
  by simp

theorem classify_monotonic_witness:
  "numeric_vitals normal_row 75 98 36.6 \<and> numeric_vitals boundary_row_50 50 98 36.6 \<and>
   worsens (hr_band 75) (hr_band 50) \<and>
   risk_label_row normal_row = Inr 0 \<and> risk_label_row boundary_row_50 = Inr 0"
proof -
  have w: "worsens (hr_band 75) (hr_band 50)"
    by (simp add: worsens_def hr_band_def)
  have a: "risk_label_row normal_row = Inr 0"
    by (simp add: risk_label_numeric [OF numeric_vitals_normal] risk_label_vals_real
        risk_score_vals_real)
  have b: "risk_label_row boundary_row_50 = Inr 0"
    by (simp add: risk_label_numeric [OF numeric_vitals_boundary_50] risk_label_vals_real
        risk_score_vals_real)
  from classify_monotonic [OF numeric_vitals_normal numeric_vitals_boundary_50] w
  have "\<exists>l l'. risk_label_row normal_row = Inr l \<and> risk_label_row boundary_row_50 = Inr l'
      \<and> l \<le> l'"
    by simp
  with w a b numeric_vitals_normal numeric_vitals_boundary_50 show ?thesis by simp
qed

lemma numeric_vitals_moderate_hr_low_oxygen:
  "numeric_vitals moderate_hr_low_oxygen_row 50 89 36.6"
  by (simp add: numeric_vitals_def num_item_def getitem_def moderate_hr_low_oxygen_row_def)

text \<open>
  C9: a record with heart rate exactly 50 or exactly 120 has its heart rate in the moderate
  band in both functions: the health score returned loses 10 points for it (not 25), and the
  risk score gains 1 point for it (not 2), so that the label returned is the one of 1 point
  plus the points of blood oxygen and temperature.
\<close>

theorem heart_rate_boundary_moderate:
  assumes "numeric_vitals r hr spo2 temp" and "hr = 50 \<or> hr = 120"
  shows "hr_band hr = Moderate \<and>
         calculate_health_score r =
           Inr (100 - 10 - spo2_penalty (spo2_band spo2) - temp_penalty (temp_band_score temp)) \<and>
         risk_label_row r = Inr (risk_label_vals hr spo2 temp) \<and>
         risk_score_vals hr spo2 temp =
           1 + band_points (spo2_band spo2) + band_points (temp_band temp) \<and>
         risk_label_row r =
           Inr (if 1 + band_points (spo2_band spo2) + band_points (temp_band temp) \<ge> 4 then 2
                else if 1 + band_points (spo2_band spo2) + band_points (temp_band temp) \<ge> 2
                  then 1
                else 0)"
proof -
  have band: "hr_band hr = Moderate"
    using assms(2) by (auto simp: hr_band_def)
  have "calculate_health_score_vals hr spo2 temp = score_before_clamp hr spo2 temp"
    using score_before_clamp_range [of hr spo2 temp]
    by (simp add: calculate_health_score_vals_real)
  then have score: "calculate_health_score r =
      Inr (100 - 10 - spo2_penalty (spo2_band spo2) - temp_penalty (temp_band_score temp))"
    using calculate_health_score_numeric [OF assms(1)] band
    by (simp add: score_before_clamp_penalties)
  have pts: "risk_score_vals hr spo2 temp =
      1 + band_points (spo2_band spo2) + band_points (temp_band temp)"
    using band by (simp add: risk_score_vals_points)
  have row: "risk_label_row r = Inr (risk_label_vals hr spo2 temp)"
    by (rule risk_label_numeric [OF assms(1)])
  have label: "risk_label_row r =
      Inr (if 1 + band_points (spo2_band spo2) + band_points (temp_band temp) \<ge> 4 then 2
           else if 1 + band_points (spo2_band spo2) + band_points (temp_band temp) \<ge> 2
             then 1
           else 0)"
    unfolding row risk_label_vals_real pts Let_def by (rule refl)
  from band score row pts label show ?thesis by blast
qed

theorem heart_rate_boundary_moderate_witness:
  "numeric_vitals boundary_row_50 50 98 36.6 \<and> calculate_health_score boundary_row_50 = Inr 90 \<and>
   risk_score_vals 50 98 36.6 = 1 \<and> risk_label_row boundary_row_50 = Inr 0 \<and>
   numeric_vitals boundary_row_120 120 92 37.4 \<and>
   calculate_health_score boundary_row_120 = Inr 65 \<and> risk_score_vals 120 92 37.4 = 2 \<and>
   risk_label_row boundary_row_120 = Inr 1 \<and>
   numeric_vitals moderate_hr_low_oxygen_row 50 89 36.6 \<and>
   calculate_health_score moderate_hr_low_oxygen_row = Inr 60 \<and>
   risk_label_row moderate_hr_low_oxygen_row = Inr 1"
  using heart_rate_boundary_moderate [OF numeric_vitals_boundary_50]
    heart_rate_boundary_moderate [OF numeric_vitals_boundary_120]
    heart_rate_boundary_moderate [OF numeric_vitals_moderate_hr_low_oxygen]
    numeric_vitals_boundary_50 numeric_vitals_boundary_120 numeric_vitals_moderate_hr_low_oxygen
  by (auto simp: spo2_band_def temp_band_def temp_band_score_def)

section \<open>Properties of the recommendations\<close>

lemmas block_defs = heart_rate_recommendations_def blood_oxygen_recommendations_def
  temperature_recommendations_def activity_recommendations_def risk_level_recommendations_def
  anomaly_recommendations_def py_lt_def py_gt_def get_default_def

lemma heart_rate_length:
  "heart_rate_recommendations r recs = Inr out \<Longrightarrow>
   length recs \<le> length out \<and> length out \<le> length recs + 2"
  by (auto simp: heart_rate_recommendations_def py_lt_def py_gt_def Let_def
      split: sum.splits if_splits)

lemma blood_oxygen_length:
  "blood_oxygen_recommendations r recs = Inr out \<Longrightarrow>
   length recs \<le> length out \<and> length out \<le> length recs + 2"
  by (auto simp: blood_oxygen_recommendations_def py_lt_def py_gt_def Let_def
      split: sum.splits if_splits)

lemma temperature_length:
  "temperature_recommendations r recs = Inr out \<Longrightarrow>
   length recs \<le> length out \<and> length out \<le> length recs + 2"
  by (auto simp: temperature_recommendations_def py_lt_def py_gt_def Let_def
      split: sum.splits if_splits)

lemma activity_length:
  "length recs \<le> length (activity_recommendations r l recs) \<and>
   length (activity_recommendations r l recs) \<le> length recs + 1"
  by (simp add: activity_recommendations_def Let_def)

lemma risk_level_length:
  "length (risk_level_recommendations l recs) = length recs + 2"
  by (simp add: risk_level_recommendations_def)

lemma anomaly_length:
  "length recs \<le> length (anomaly_recommendations a recs) \<and>
   length (anomaly_recommendations a recs) \<le> length recs + 1"
  by (simp add: anomaly_recommendations_def)

lemma recommendations_length_bounds:
  assumes "generate_recommendations r a l = Inr xs"
  shows "2 \<le> length xs \<and> length xs \<le> 10"
proof -
  from assms obtain r1 r2 r3 where
    h: "heart_rate_recommendations r [] = Inr r1" and
    b: "blood_oxygen_recommendations r r1 = Inr r2" and
    t: "temperature_recommendations r r2 = Inr r3" and
    xs: "xs = anomaly_recommendations a
               (risk_level_recommendations l (activity_recommendations r l r3))"
    by (auto simp: generate_recommendations_def Let_def split: sum.splits)
  from heart_rate_length [OF h] blood_oxygen_length [OF b] temperature_length [OF t]
  have "length r3 \<le> 6" by simp
  with activity_length [of r3 r l]
    risk_level_length [of l "activity_recommendations r l r3"]
    anomaly_length [of "risk_level_recommendations l (activity_recommendations r l r3)" a]
  show ?thesis unfolding xs by linarith
qed

lemma recommendations_normal:
  "generate_recommendations normal_row ''Normal'' ''Low Risk'' =
     Inr [msg_vitals_good, msg_stay_hydrated]"
  by (simp add: generate_recommendations_def block_defs normal_row_def)

lemma recommendations_worst:
  "generate_recommendations worst_row ''Anomaly'' ''High Risk'' =
     Inr [msg_hr_low, msg_avoid_strenuous, msg_spo2_low, msg_spo2_critical, msg_temp_elevated,
          msg_fever, msg_activity_low, msg_high_risk, msg_emergency, msg_anomaly]"
  by (simp add: generate_recommendations_def block_defs worst_row_def)

text \<open>
  C6, as the claim states it, fails: no record, anomaly status and risk level make the function
  return the empty list.
\<close>

theorem recommendations_never_empty:
  "\<not> (\<exists>r a l. generate_recommendations r a l = Inr [])"
proof
  assume "\<exists>r a l. generate_recommendations r a l = Inr []"
  then obtain r a l where "generate_recommendations r a l = Inr []" by blast
  from recommendations_length_bounds [OF this] show False by simp
qed

text \<open>
  C6, amended: the length of the list returned by the function is variable, from two to ten
  entries; the block on the risk level always appends two entries, so the list is never empty.
  Both ends are reached.
\<close>

theorem recommendations_length:
  assumes "generate_recommendations r a l = Inr xs"
  shows "2 \<le> length xs \<and> length xs \<le> 10 \<and> xs \<noteq> [] \<and>
         (\<exists>ys. generate_recommendations normal_row ''Normal'' ''Low Risk'' = Inr ys \<and>
               length ys = 2) \<and>
         (\<exists>zs. generate_recommendations worst_row ''Anomaly'' ''High Risk'' = Inr zs \<and>
               length zs = 10)"
  using recommendations_length_bounds [OF assms] recommendations_normal recommendations_worst
  by auto

theorem recommendations_length_witness:
  "generate_recommendations Map.empty ''Normal'' ''Low Risk'' =
     Inr [msg_hr_low, msg_avoid_strenuous, msg_vitals_good, msg_stay_hydrated] \<and>
   2 \<le> length [msg_hr_low, msg_avoid_strenuous, msg_vitals_good, msg_stay_hydrated] \<and>
   length [msg_hr_low, msg_avoid_strenuous, msg_vitals_good, msg_stay_hydrated] \<le> 10"
proof -
  have ret: "generate_recommendations Map.empty ''Normal'' ''Low Risk'' =
      Inr [msg_hr_low, msg_avoid_strenuous, msg_vitals_good, msg_stay_hydrated]"
    by (simp add: generate_recommendations_def block_defs)
  from recommendations_length [OF ret] ret show ?thesis by simp
qed

text \<open>
  C7: for the record with heart rate 45, blood oxygen 88 and temperature 39.0, anomaly status
  Anomaly and risk level High, the function returns at least 5 entries (it returns 9), among
  them the low-heart-rate message, the urgent message on critical blood oxygen, the urgent
  fever message, the urgent High-risk message and the anomaly message.
\<close>

theorem recommendations_critical_record:
  "\<exists>xs. generate_recommendations example_row ''Anomaly'' ''High Risk'' = Inr xs \<and>
     xs = [msg_hr_low, msg_avoid_strenuous, msg_spo2_low, msg_spo2_critical, msg_temp_elevated,
           msg_fever, msg_high_risk, msg_emergency, msg_anomaly] \<and>
     5 \<le> length xs \<and>
     msg_hr_low \<in> set xs \<and>
     msg_spo2_critical \<in> set xs \<and> is_urgent msg_spo2_critical \<and>
     msg_fever \<in> set xs \<and> is_urgent msg_fever \<and>
     msg_high_risk \<in> set xs \<and> is_urgent msg_high_risk \<and>
     msg_anomaly \<in> set xs"
proof -
  have ret: "generate_recommendations example_row ''Anomaly'' ''High Risk'' =
      Inr [msg_hr_low, msg_avoid_strenuous, msg_spo2_low, msg_spo2_critical, msg_temp_elevated,
           msg_fever, msg_high_risk, msg_emergency, msg_anomaly]"
    by (simp add: generate_recommendations_def block_defs example_row_def)
  have urgent: "is_urgent msg_spo2_critical" "is_urgent msg_fever" "is_urgent msg_high_risk"
    by (simp_all add: is_urgent_def msg_spo2_critical_def msg_fever_def msg_high_risk_def)
  from ret urgent show ?thesis by simp
qed

text \<open>
  C8: for the fully normal record (heart rate 75, blood oxygen 98, temperature 36.6, activity
  moderate), anomaly status Normal and risk level Low, the function returns the two messages
  of the Low-risk block and nothing else: no entry is a warning or urgent.
\<close>

theorem recommendations_normal_record:
  "generate_recommendations normal_row ''Normal'' ''Low Risk'' =
     Inr [msg_vitals_good, msg_stay_hydrated] \<and>
   filter (\<lambda>m. is_warning m \<or> is_urgent m) [msg_vitals_good, msg_stay_hydrated] = [] \<and>
   risk_level_recommendations ''Low Risk'' [] = [msg_vitals_good, msg_stay_hydrated]"
proof -
  have "filter (\<lambda>m. is_warning m \<or> is_urgent m) [msg_vitals_good, msg_stay_hydrated] = []"
    by (simp add: is_urgent_def is_warning_def msg_vitals_good_def msg_stay_hydrated_def
        glyph_urgent_def glyph_warning_def glyph_ok_def glyph_water_def)
  moreover have "risk_level_recommendations ''Low Risk'' [] = [msg_vitals_good, msg_stay_hydrated]"
    by (simp add: risk_level_recommendations_def)
  ultimately show ?thesis using recommendations_normal by simp
qed

section \<open>Missing, non-numeric and out-of-domain fields\<close>

lemma num_item_Inl_iff: "num_item r k = Inl e \<longleftrightarrow> field_error r k = Some e"
  by (cases "r k"; cases "the (r k)") (auto simp: num_item_def getitem_def field_error_def)

lemma num_item_Inr_iff: "(\<exists>x. num_item r k = Inr x) \<longleftrightarrow> field_error r k = None"
  by (cases "r k"; cases "the (r k)") (auto simp: num_item_def getitem_def field_error_def)

lemma score_error_iff:
  "calculate_health_score r = Inl e \<longleftrightarrow> first_error r vital_keys = Some e"
  using num_item_Inr_iff [of r "''heart_rate''"] num_item_Inr_iff [of r "''blood_oxygen''"]
    num_item_Inr_iff [of r "''temperature''"]
  by (auto simp: calculate_health_score_def vital_keys_def num_item_Inl_iff
      split: sum.splits option.splits)

lemma label_error_iff:
  "risk_label_row r = Inl e \<longleftrightarrow> first_error r vital_keys = Some e"
  using num_item_Inr_iff [of r "''heart_rate''"] num_item_Inr_iff [of r "''blood_oxygen''"]
    num_item_Inr_iff [of r "''temperature''"]
  by (auto simp: risk_label_row_def vital_keys_def num_item_Inl_iff
      split: sum.splits option.splits)

lemma score_returns_iff:
  "(\<exists>s. calculate_health_score r = Inr s) \<longleftrightarrow> first_error r vital_keys = None"
  using score_error_iff [of r] by (cases "calculate_health_score r") auto

lemma label_returns_iff:
  "(\<exists>s. risk_label_row r = Inr s) \<longleftrightarrow> first_error r vital_keys = None"
  using label_error_iff [of r] by (cases "risk_label_row r") auto

lemma score_nan_severe:
  "score_before_clamp_num NaN b c = score_before_clamp_num (Finite 0) b c"
  "score_before_clamp_num a NaN c = score_before_clamp_num a (Finite 0) c"
  "score_before_clamp_num a b NaN = score_before_clamp_num a b (Finite 0)"
  by (simp_all add: score_before_clamp_num_def)

lemma num_item_upd:
  "num_item (r(k \<mapsto> v)) k' = (if k' = k then as_number v else num_item r k')"
  by (simp add: num_item_def getitem_def)

lemma num_item_nan: "r k = Some PyNaN \<Longrightarrow> num_item r k = Inr NaN"
  by (simp add: num_item_def getitem_def)

lemma score_nan:
  assumes "r k = Some PyNaN" and "k \<in> set vital_keys"
  shows "calculate_health_score r = calculate_health_score (r(k \<mapsto> PyInt 0))"
  using assms(2) num_item_nan [of r k, OF assms(1)]
  by (auto simp: vital_keys_def calculate_health_score_def calculate_health_score_num_def
      num_item_upd score_nan_severe split: sum.splits)

lemma as_number_isl: "isl (as_number v) \<longleftrightarrow> \<not> is_number v"
  by (cases v) auto

lemma as_number_error: "as_number v = Inl e \<Longrightarrow> e = TypeError"
  by (cases v) auto

lemma get_default_number:
  "is_number d \<Longrightarrow> is_number (get_default r k d) \<longleftrightarrow> numeric_or_missing r k"
  by (auto simp: get_default_def numeric_or_missing_def split: option.splits)

lemma heart_rate_isl:
  "isl (heart_rate_recommendations r recs) \<longleftrightarrow> \<not> numeric_or_missing r ''heart_rate''"
  using get_default_number [of "PyInt 0" r "''heart_rate''"]
    as_number_isl [of "get_default r ''heart_rate'' (PyInt 0)"]
  by (auto simp: heart_rate_recommendations_def py_lt_def py_gt_def Let_def split: sum.splits)

lemma blood_oxygen_isl:
  "isl (blood_oxygen_recommendations r recs) \<longleftrightarrow> \<not> numeric_or_missing r ''blood_oxygen''"
  using get_default_number [of "PyInt 100" r "''blood_oxygen''"]
    as_number_isl [of "get_default r ''blood_oxygen'' (PyInt 100)"]
  by (auto simp: blood_oxygen_recommendations_def py_lt_def py_gt_def Let_def split: sum.splits)

lemma temperature_isl:
  "isl (temperature_recommendations r recs) \<longleftrightarrow> \<not> numeric_or_missing r ''temperature''"
  using get_default_number [of "PyFloat 36.5" r "''temperature''"]
    as_number_isl [of "get_default r ''temperature'' (PyFloat 36.5)"]
  by (auto simp: temperature_recommendations_def py_lt_def py_gt_def Let_def split: sum.splits)

lemma recommendations_fail_iff:
  "isl (generate_recommendations r a l) \<longleftrightarrow>
   \<not> (numeric_or_missing r ''heart_rate'' \<and> numeric_or_missing r ''blood_oxygen'' \<and>
      numeric_or_missing r ''temperature'')"
proof -
  have "isl (generate_recommendations r a l) \<longleftrightarrow>
      isl (heart_rate_recommendations r []) \<or>
      (\<exists>r1. heart_rate_recommendations r [] = Inr r1 \<and>
         (isl (blood_oxygen_recommendations r r1) \<or>
          (\<exists>r2. blood_oxygen_recommendations r r1 = Inr r2 \<and>
             isl (temperature_recommendations r r2))))"
    by (auto simp: generate_recommendations_def Let_def split: sum.splits)
  then show ?thesis
    unfolding heart_rate_isl blood_oxygen_isl temperature_isl
    by (metis heart_rate_isl blood_oxygen_isl isl_def sum.collapse(2))
qed

lemma block_error:
  "heart_rate_recommendations r recs = Inl e \<Longrightarrow> e = TypeError"
  "blood_oxygen_recommendations r recs = Inl e \<Longrightarrow> e = TypeError"
  "temperature_recommendations r recs = Inl e \<Longrightarrow> e = TypeError"
  by (auto simp: heart_rate_recommendations_def blood_oxygen_recommendations_def
      temperature_recommendations_def py_lt_def py_gt_def Let_def
      split: sum.splits if_splits dest: as_number_error)

lemma recommendations_error:
  "generate_recommendations r a l = Inl e \<Longrightarrow> e = TypeError"
  by (auto simp: generate_recommendations_def Let_def split: sum.splits dest: block_error)

lemma get_default_neutral:
  "get_default (neutral_defaults ++ r) ''heart_rate'' d = get_default r ''heart_rate'' d"
  "get_default (neutral_defaults ++ r) ''blood_oxygen'' (PyInt 100) =
     get_default r ''blood_oxygen'' (PyInt 100)"
  "get_default (neutral_defaults ++ r) ''temperature'' (PyFloat 36.5) =
     get_default r ''temperature'' (PyFloat 36.5)"
  "get_default (neutral_defaults ++ r) ''activity_level'' (PyStr ''moderate'') =
     get_default r ''activity_level'' (PyStr ''moderate'')"
  by (simp_all add: get_default_def neutral_defaults_def map_add_def split: option.splits)

lemma recommendations_defaults:
  "generate_recommendations (neutral_defaults ++ r) a l = generate_recommendations r a l"
  by (simp only: generate_recommendations_def heart_rate_recommendations_def
      blood_oxygen_recommendations_def temperature_recommendations_def
      activity_recommendations_def get_default_neutral)


lemma recommendations_error_iff:
  "generate_recommendations r a l = Inl e \<longleftrightarrow>
   e = TypeError \<and>
   \<not> (numeric_or_missing r ''heart_rate'' \<and> numeric_or_missing r ''blood_oxygen'' \<and>
      numeric_or_missing r ''temperature'')"
proof
  assume err: "generate_recommendations r a l = Inl e"
  then have "isl (generate_recommendations r a l)" by simp
  with recommendations_error [OF err] show "e = TypeError \<and>
      \<not> (numeric_or_missing r ''heart_rate'' \<and> numeric_or_missing r ''blood_oxygen'' \<and>
         numeric_or_missing r ''temperature'')"
    by (simp only: recommendations_fail_iff simp_thms)
next
  assume bad: "e = TypeError \<and>
      \<not> (numeric_or_missing r ''heart_rate'' \<and> numeric_or_missing r ''blood_oxygen'' \<and>
         numeric_or_missing r ''temperature'')"
  then have "isl (generate_recommendations r a l)"
    by (simp only: recommendations_fail_iff simp_thms)
  then obtain e' where err: "generate_recommendations r a l = Inl e'"
    by (auto simp: isl_def)
  from recommendations_error [OF err] bad err
  show "generate_recommendations r a l = Inl e" by simp
qed

text \<open>
  C5, as the claim states it, fails: on the record with no field at all the recommendations
  are returned, computed from the defaults; on a record with blood oxygen \<open>-5\<close> the score,
  the label and the recommendations are returned; on a record whose heart rate is NaN the
  score and the label are returned.
\<close>

theorem no_validation_counterexample:
  "generate_recommendations Map.empty ''Normal'' ''Low Risk'' =
     Inr [msg_hr_low, msg_avoid_strenuous, msg_vitals_good, msg_stay_hydrated] \<and>
   calculate_health_score negative_spo2_row = Inr 70 \<and>
   risk_label_row negative_spo2_row = Inr 1 \<and>
   generate_recommendations negative_spo2_row ''Normal'' ''Low Risk'' =
     Inr [msg_spo2_low, msg_spo2_critical, msg_vitals_good, msg_stay_hydrated] \<and>
   calculate_health_score nan_heart_rate_row = Inr 75 \<and>
   risk_label_row nan_heart_rate_row = Inr 0"
proof -
  have "generate_recommendations Map.empty ''Normal'' ''Low Risk'' =
      Inr [msg_hr_low, msg_avoid_strenuous, msg_vitals_good, msg_stay_hydrated]"
    by (simp add: generate_recommendations_def block_defs)
  moreover have "calculate_health_score negative_spo2_row = Inr 70"
    by (simp add: calculate_health_score_def num_item_def getitem_def negative_spo2_row_def
        calculate_health_score_num_def score_before_clamp_num_def)
  moreover have "risk_label_row negative_spo2_row = Inr 1"
    by (simp add: risk_label_row_def num_item_def getitem_def negative_spo2_row_def
        risk_label_num_def risk_score_num_def)
  moreover have "generate_recommendations negative_spo2_row ''Normal'' ''Low Risk'' =
      Inr [msg_spo2_low, msg_spo2_critical, msg_vitals_good, msg_stay_hydrated]"
    by (simp add: generate_recommendations_def block_defs negative_spo2_row_def)
  moreover have "calculate_health_score nan_heart_rate_row = Inr 75"
    by (simp add: calculate_health_score_def num_item_def getitem_def nan_heart_rate_row_def
        calculate_health_score_num_def score_before_clamp_num_def)
  moreover have "risk_label_row nan_heart_rate_row = Inr 0"
    by (simp add: risk_label_row_def num_item_def getitem_def nan_heart_rate_row_def
        risk_label_num_def risk_score_num_def)
  ultimately show ?thesis by simp
qed

text \<open>
  C5, amended. The score and the risk label read heart rate, blood oxygen and temperature in
  this order and fail exactly when one of them is absent from the record or holds a string or
  \<^verbatim>\<open>None\<close>: the error is the one of the first such field, \<^verbatim>\<open>KeyError\<close> naming
  the field when it is absent and \<^verbatim>\<open>TypeError\<close> when it holds something that is not a
  number; otherwise they return, whatever the numbers are, and no out-of-domain number is
  rejected. A NaN raises nothing; the score counts it as a reading of the severe band of its
  channel (such as 0). The recommendations fail, with \<^verbatim>\<open>TypeError\<close>, exactly when
  one of the three fields is present and holds a string or \<^verbatim>\<open>None\<close>; a field that is
  absent is read with a default and for blood oxygen, temperature and activity level the
  result is the one of the record with 100, 36.5 and moderate in its place.
\<close>

theorem validation_behaviour:
  "(calculate_health_score r = Inl e \<longleftrightarrow> first_error r vital_keys = Some e) \<and>
   (risk_label_row r = Inl e \<longleftrightarrow> first_error r vital_keys = Some e) \<and>
   ((\<exists>s. calculate_health_score r = Inr s) \<longleftrightarrow> first_error r vital_keys = None) \<and>
   ((\<exists>s. risk_label_row r = Inr s) \<longleftrightarrow> first_error r vital_keys = None) \<and>
   (k \<in> set vital_keys \<and> r k = Some PyNaN \<longrightarrow>
      calculate_health_score r = calculate_health_score (r(k \<mapsto> PyInt 0))) \<and>
   (generate_recommendations r a l = Inl e \<longleftrightarrow>
      e = TypeError \<and>
      \<not> (numeric_or_missing r ''heart_rate'' \<and> numeric_or_missing r ''blood_oxygen'' \<and>
         numeric_or_missing r ''temperature'')) \<and>
   generate_recommendations r a l = generate_recommendations (neutral_defaults ++ r) a l"
proof (intro conjI impI)
  show "calculate_health_score r = Inl e \<longleftrightarrow> first_error r vital_keys = Some e"
    by (rule score_error_iff)
  show "risk_label_row r = Inl e \<longleftrightarrow> first_error r vital_keys = Some e"
    by (rule label_error_iff)
  show "(\<exists>s. calculate_health_score r = Inr s) \<longleftrightarrow> first_error r vital_keys = None"
    by (rule score_returns_iff)
  show "(\<exists>s. risk_label_row r = Inr s) \<longleftrightarrow> first_error r vital_keys = None"
    by (rule label_returns_iff)
  show "calculate_health_score r = calculate_health_score (r(k \<mapsto> PyInt 0))"
    if "k \<in> set vital_keys \<and> r k = Some PyNaN"
    using that score_nan [of r k] by blast
  show "generate_recommendations r a l = Inl e \<longleftrightarrow>
      e = TypeError \<and>
      \<not> (numeric_or_missing r ''heart_rate'' \<and> numeric_or_missing r ''blood_oxygen'' \<and>
         numeric_or_missing r ''temperature'')"
    by (rule recommendations_error_iff)
  show "generate_recommendations r a l = generate_recommendations (neutral_defaults ++ r) a l"
    by (simp only: recommendations_defaults)
qed

theorem validation_behaviour_witness:
  "calculate_health_score Map.empty = Inl (KeyError ''heart_rate'') \<and>
   risk_label_row no_temperature_row = Inl (KeyError ''temperature'') \<and>
   calculate_health_score non_numeric_row = Inl TypeError \<and>
   ''heart_rate'' \<in> set vital_keys \<and> nan_heart_rate_row ''heart_rate'' = Some PyNaN \<and>
   calculate_health_score nan_heart_rate_row = Inr 75 \<and>
   (\<exists>s. risk_label_row negative_spo2_row = Inr s) \<and>
   generate_recommendations none_heart_rate_row ''Normal'' ''Low Risk'' = Inl TypeError \<and>
   \<not> numeric_or_missing none_heart_rate_row ''heart_rate''"
proof -
  have "first_error Map.empty vital_keys = Some (KeyError ''heart_rate'')"
    by (simp add: vital_keys_def field_error_def)
  with validation_behaviour [where r = Map.empty and e = "KeyError ''heart_rate''"]
  have a: "calculate_health_score Map.empty = Inl (KeyError ''heart_rate'')"
    by blast
  have "first_error no_temperature_row vital_keys = Some (KeyError ''temperature'')"
    by (simp add: vital_keys_def field_error_def no_temperature_row_def)
  with validation_behaviour [where r = no_temperature_row and e = "KeyError ''temperature''"]
  have b: "risk_label_row no_temperature_row = Inl (KeyError ''temperature'')"
    by blast
  have "first_error non_numeric_row vital_keys = Some TypeError"
    by (simp add: vital_keys_def field_error_def non_numeric_row_def)
  with validation_behaviour [where r = non_numeric_row and e = TypeError]
  have c: "calculate_health_score non_numeric_row = Inl TypeError"
    by blast
  have d: "''heart_rate'' \<in> set vital_keys" "nan_heart_rate_row ''heart_rate'' = Some PyNaN"
    by (simp_all add: vital_keys_def nan_heart_rate_row_def)
  have "calculate_health_score (nan_heart_rate_row(''heart_rate'' \<mapsto> PyInt 0)) = Inr 75"
    by (simp add: calculate_health_score_def num_item_def getitem_def nan_heart_rate_row_def
        calculate_health_score_num_def score_before_clamp_num_def)
  with validation_behaviour [where r = nan_heart_rate_row and k = "''heart_rate''"] d
  have e: "calculate_health_score nan_heart_rate_row = Inr 75"
    by simp
  have "first_error negative_spo2_row vital_keys = None"
    by (simp add: vital_keys_def field_error_def negative_spo2_row_def)
  with validation_behaviour [where r = negative_spo2_row]
  have f: "\<exists>s. risk_label_row negative_spo2_row = Inr s"
    by blast
  have g: "\<not> numeric_or_missing none_heart_rate_row ''heart_rate''"
    by (simp add: numeric_or_missing_def none_heart_rate_row_def)
  with validation_behaviour [where r = none_heart_rate_row and e = TypeError
      and a = "''Normal''" and l = "''Low Risk''"]
  have h: "generate_recommendations none_heart_rate_row ''Normal'' ''Low Risk'' = Inl TypeError"
    by blast
  from a b c d e f g h show ?thesis by blast
qed

end
